theory Spec2Isabelle
  imports Main "HOL-Library.Word"
begin

section \<open>The decimal type of package bignum\<close>

text \<open>
  The development follows the package file with \<^verbatim>\<open>checkOperands\<close> and the
  \<^verbatim>\<open>applyRounding(value *big.Int)\<close> helper (the draft the package's tests call).
  A \<^verbatim>\<open>*big.Int\<close> is an \<open>int option\<close>, \<open>None\<close> being the nil pointer; Go's
  \<^verbatim>\<open>uint\<close> and \<^verbatim>\<open>int\<close> are 64-bit words; a call returns \<open>Inr\<close> of its result or
  \<open>Inl\<close> of the error it returns or of the run-time panic that ends it. The message
  text of an error is left out, its \<^verbatim>\<open>ErrorType\<close> is kept.
\<close>

datatype RoundingMode = RoundUp | RoundDown | RoundToNearest | RoundToEven

datatype ErrorType =
  OverflowError | PrecisionError | DivisionByZeroError | InvalidInputError
  | UndefinedOperationError

datatype failure =
  BigNumberError ErrorType
  | NilDereference
  | DivisionByZeroPanic
  | IndexOutOfRange
  | NegativeRepeatCount
  | UnspecifiedBigInt

record BigNumber =
  positive :: "int option"
  negative :: "int option"
  precision :: "64 word"
  rounding :: RoundingMode
  isInf :: bool
  isNan :: bool
  value' :: "int option"

text \<open>
  The fields are those of the Go struct, in its order; \<open>value'\<close> is its field
  \<^verbatim>\<open>value\<close>. A record made without a part or a number has \<open>None\<close> there.
\<close>

definition bindR :: "failure + 'a \<Rightarrow> ('a \<Rightarrow> failure + 'b) \<Rightarrow> failure + 'b" where
  "bindR m f = (case m of Inl e \<Rightarrow> Inl e | Inr x \<Rightarrow> f x)"

definition deref :: "'a option \<Rightarrow> failure + 'a" where
  "deref p = (case p of None \<Rightarrow> Inl NilDereference | Some x \<Rightarrow> Inr x)"

subsection \<open>The operations of math/big and strings the package calls\<close>

text \<open>
  \<^verbatim>\<open>Int.Div\<close> and \<^verbatim>\<open>Int.Mod\<close> are Euclidean: the modulus lies in \<open>0 ..< |y|\<close>, and a
  zero divisor is a run-time panic.
\<close>

definition big_Div :: "int \<Rightarrow> int \<Rightarrow> failure + int" where
  "big_Div x y =
     (if y = 0 then Inl DivisionByZeroPanic
      else if 0 < y then Inr (x div y)
      else Inr (- (x div (- y))))"

definition big_Mod :: "int \<Rightarrow> int \<Rightarrow> failure + int" where
  "big_Mod x y =
     (if y = 0 then Inl DivisionByZeroPanic
      else if 0 < y then Inr (x mod y)
      else Inr (x mod (- y)))"

text \<open>
  \<^verbatim>\<open>new(big.Int).Exp(big.NewInt(10), big.NewInt(int64(e)), nil)\<close>: the \<^verbatim>\<open>uint\<close> is read
  as a signed 64-bit number, and an exponent that is not positive gives 1.
\<close>

definition big_Exp10 :: "64 word \<Rightarrow> int" where
  "big_Exp10 e = (if sint e \<le> 0 then 1 else 10 ^ nat (sint e))"

definition digit_of :: "char \<Rightarrow> nat option" where
  "digit_of c =
     (let n = (of_char c :: nat) in if 48 \<le> n \<and> n \<le> 57 then Some (n - 48) else None)"

fun digits_value :: "nat \<Rightarrow> string \<Rightarrow> nat option" where
  "digits_value acc [] = Some acc"
| "digits_value acc (c # cs) =
     (case digit_of c of None \<Rightarrow> None | Some d \<Rightarrow> digits_value (10 * acc + d) cs)"

text \<open>
  \<^verbatim>\<open>Int.SetString(s, 10)\<close>: an optional sign, then one decimal digit or more, and
  nothing else; \<open>None\<close> is the failed call.
\<close>

definition big_SetString :: "string \<Rightarrow> int option" where
  "big_SetString s =
     (case s of
        [] \<Rightarrow> None
      | c # cs \<Rightarrow>
          if c = CHR ''-'' then
            (if cs = [] then None else map_option (\<lambda>n. - int n) (digits_value 0 cs))
          else if c = CHR ''+'' then
            (if cs = [] then None else map_option int (digits_value 0 cs))
          else map_option int (digits_value 0 s))"

definition lower_char :: "char \<Rightarrow> char" where
  "lower_char c =
     (let n = (of_char c :: nat) in if 65 \<le> n \<and> n \<le> 90 then ''abcdefghijklmnopqrstuvwxyz'' ! (n - 65) else c)"

text \<open>
  \<^verbatim>\<open>strings.ToLower\<close> on the bytes of an ASCII text; bytes from 128 on, which Go lowers
  by its Unicode tables, are left as they are.
\<close>

definition ToLower :: "string \<Rightarrow> string" where
  "ToLower s = map lower_char s"

text \<open>\<^verbatim>\<open>strings.Split(str, ".")\<close>: the pieces between the dots, never an empty list.\<close>

fun Split :: "string \<Rightarrow> string list" where
  "Split [] = [[]]"
| "Split (c # cs) =
     (if c = CHR ''.'' then [] # Split cs
      else (case Split cs of [] \<Rightarrow> [[c]] | p # ps \<Rightarrow> (c # p) # ps))"

subsection \<open>NewBigNumber\<close>

text \<open>
  The fractional text is converted before it is cut to the precision, and its
  \<^verbatim>\<open>SetString\<close> result is not looked at: where that call fails, math/big leaves the
  number unspecified, and the model stops with \<open>UnspecifiedBigInt\<close>.
\<close>

definition NewBigNumber :: "string \<Rightarrow> 64 word \<Rightarrow> RoundingMode \<Rightarrow> failure + BigNumber" where
  "NewBigNumber str prec rnd =
     (let bn = \<lparr>positive = None, negative = None, precision = prec, rounding = rnd,
                 isInf = False, isNan = False, value' = None\<rparr>
      in
      if ToLower str = ''inf'' then Inr (bn\<lparr>isInf := True\<rparr>)
      else if ToLower str = ''nan'' then Inr (bn\<lparr>isNan := True\<rparr>)
      else if str = [] then Inl (BigNumberError InvalidInputError)
      else
        (case Split str of
           [] \<Rightarrow> Inl IndexOutOfRange
         | part0 # rest \<Rightarrow>
             let decimalPart = (case rest of [] \<Rightarrow> [] | d # _ \<Rightarrow> d) in
             (case part0 of
                [] \<Rightarrow> Inl IndexOutOfRange
              | c # cs \<Rightarrow>
                  let sign = (if c = CHR ''-'' then - 1 else (1 :: int));
                      integerPart = (if c = CHR ''-'' then cs else part0)
                  in
                  (case big_SetString integerPart of
                     None \<Rightarrow> Inl (BigNumberError InvalidInputError)
                   | Some integerBigInt \<Rightarrow>
                       bindR
                         (if 0 < length decimalPart then
                            (case big_SetString decimalPart of
                               None \<Rightarrow> Inl UnspecifiedBigInt
                             | Some d \<Rightarrow>
                                 let decimalPart' =
                                       (if prec < word_of_nat (length decimalPart)
                                        then take (unat prec) decimalPart else decimalPart);
                                     scaleFactor =
                                       big_Exp10 (prec - word_of_nat (length decimalPart'))
                                 in Inr (d * scaleFactor))
                          else Inr 0)
                         (\<lambda>decimalBigInt.
                            let bn' =
                                  (if sign = 1
                                   then bn\<lparr>positive := Some integerBigInt,
                                           negative := Some decimalBigInt\<rparr>
                                   else bn\<lparr>negative := Some integerBigInt,
                                           positive := Some decimalBigInt\<rparr>)
                            in
                            bindR (deref (positive bn')) (\<lambda>p.
                            bindR (deref (negative bn')) (\<lambda>n.
                              Inr (bn'\<lparr>value' := Some (p - n)\<rparr>))))))))"

subsection \<open>Operand checks and the rounding helper\<close>

definition IsZero :: "BigNumber \<Rightarrow> failure + bool" where
  "IsZero bn = bindR (deref (value' bn)) (\<lambda>v. Inr (v = 0))"

text \<open>The two checks return the error or panic that stops the caller, \<open>None\<close> for nil.\<close>

definition checkPrecision :: "BigNumber \<Rightarrow> BigNumber \<Rightarrow> failure option" where
  "checkPrecision bn other =
     (if precision bn = precision other then None else Some (BigNumberError PrecisionError))"

definition checkSpecialCases :: "BigNumber \<Rightarrow> BigNumber \<Rightarrow> failure option" where
  "checkSpecialCases bn other =
     (if isInf bn \<or> isInf other then Some (BigNumberError UndefinedOperationError)
      else if isNan bn \<or> isNan other then Some (BigNumberError UndefinedOperationError)
      else
        (case IsZero bn of
           Inl f \<Rightarrow> Some f
         | Inr z \<Rightarrow>
             if z then
               (case IsZero other of
                  Inl f \<Rightarrow> Some f
                | Inr z' \<Rightarrow>
                    if z' then Some (BigNumberError UndefinedOperationError) else None)
             else None))"

definition checkOperands :: "BigNumber \<Rightarrow> BigNumber \<Rightarrow> failure option" where
  "checkOperands bn other =
     (case checkPrecision bn other of
        Some f \<Rightarrow> Some f
      | None \<Rightarrow> checkSpecialCases bn other)"

definition scaleForPrecision :: "BigNumber \<Rightarrow> int" where
  "scaleForPrecision bn = big_Exp10 (precision bn)"

text \<open>
  \<^verbatim>\<open>applyRounding\<close> works on its argument in place. Its divisors (the scale factor,
  10 and 2) are positive, so \<^verbatim>\<open>Int.Div\<close> and \<^verbatim>\<open>Int.Mod\<close> are \<open>div\<close> and \<open>mod\<close> here.
  In the \<^verbatim>\<open>RoundToEven\<close> case the two tests of the condition overwrite the number:
  the first leaves its last digit, the second (run only when that digit is 5) leaves the
  parity of that digit's tens.
\<close>

definition applyRounding :: "BigNumber \<Rightarrow> int \<Rightarrow> int" where
  "applyRounding bn v =
     (case rounding bn of
        RoundToNearest \<Rightarrow>
          let halfScaleFactor = scaleForPrecision bn div 2
          in (v + halfScaleFactor) div scaleForPrecision bn
      | RoundToEven \<Rightarrow>
          let halfScaleFactor = scaleForPrecision bn div 2;
              v1 = (v + halfScaleFactor) div scaleForPrecision bn;
              v2 = v1 mod 10
          in
          if v2 = 5 then
            (let v3 = v2 div 10; v4 = v3 mod 2 in if v4 = 1 then v4 + 1 else v4)
          else v2
      | _ \<Rightarrow> v)"

subsection \<open>Arithmetic\<close>

definition Add :: "BigNumber \<Rightarrow> BigNumber \<Rightarrow> failure + BigNumber" where
  "Add bn other =
     (case checkOperands bn other of
        Some f \<Rightarrow> Inl f
      | None \<Rightarrow>
          bindR (deref (positive bn)) (\<lambda>p.
          bindR (deref (negative bn)) (\<lambda>n.
          bindR (deref (positive other)) (\<lambda>p'.
          bindR (deref (negative other)) (\<lambda>n'.
            let result = \<lparr>positive = Some (p + p'), negative = Some (n + n'),
                            precision = precision bn, rounding = rounding bn,
                            isInf = False, isNan = False, value' = None\<rparr>
            in Inr (result\<lparr>value' := Some (applyRounding bn ((p + p') - (n + n')))\<rparr>))))))"

definition Subtract :: "BigNumber \<Rightarrow> BigNumber \<Rightarrow> failure + BigNumber" where
  "Subtract bn other =
     (case checkOperands bn other of
        Some f \<Rightarrow> Inl f
      | None \<Rightarrow>
          bindR (deref (positive bn)) (\<lambda>p.
          bindR (deref (negative bn)) (\<lambda>n.
          bindR (deref (positive other)) (\<lambda>p'.
          bindR (deref (negative other)) (\<lambda>n'.
            let result = \<lparr>positive = Some (p - p'), negative = Some (n - n'),
                            precision = precision bn, rounding = rounding bn,
                            isInf = False, isNan = False, value' = None\<rparr>
            in Inr (result\<lparr>value' := Some (applyRounding bn ((p - p') - (n - n')))\<rparr>))))))"

definition Multiply :: "BigNumber \<Rightarrow> BigNumber \<Rightarrow> failure + BigNumber" where
  "Multiply bn other =
     (case checkOperands bn other of
        Some f \<Rightarrow> Inl f
      | None \<Rightarrow>
          bindR (deref (positive bn)) (\<lambda>p.
          bindR (deref (negative bn)) (\<lambda>n.
          bindR (deref (positive other)) (\<lambda>p'.
          bindR (deref (negative other)) (\<lambda>n'.
            let result = \<lparr>positive = Some (p * p'), negative = Some (n * n'),
                            precision = precision bn + precision other,
                            rounding = rounding bn,
                            isInf = False, isNan = False, value' = None\<rparr>
            in Inr (result\<lparr>value' := Some (applyRounding bn ((p * p') - (n * n')))\<rparr>))))))"

text \<open>
  \<^verbatim>\<open>Divide\<close> and \<^verbatim>\<open>Modulo\<close> take their result record from \<^verbatim>\<open>NewBigNumber("", ...)\<close>
  and drop its error: the empty text is refused there, the record is the nil pointer, and
  the store into its first field is a nil dereference.
\<close>

definition Divide :: "BigNumber \<Rightarrow> BigNumber \<Rightarrow> failure + BigNumber" where
  "Divide bn other =
     (case checkPrecision bn other of
        Some f \<Rightarrow> Inl f
      | None \<Rightarrow>
     (case checkSpecialCases bn other of
        Some f \<Rightarrow> Inl f
      | None \<Rightarrow>
          bindR (IsZero other) (\<lambda>z.
            if z then Inl (BigNumberError DivisionByZeroError)
            else
              let scaleFactor = scaleForPrecision bn in
              bindR (deref (positive bn)) (\<lambda>p.
              bindR (deref (negative bn)) (\<lambda>n.
              bindR (deref (positive other)) (\<lambda>p'.
              bindR (deref (negative other)) (\<lambda>n'.
              bindR (big_Div (p * scaleFactor) (p' * scaleFactor)) (\<lambda>quotientPositive.
              bindR (big_Div (n * scaleFactor) (n' * scaleFactor)) (\<lambda>quotientNegative.
                (case NewBigNumber [] (precision bn) (rounding bn) of
                   Inl _ \<Rightarrow> Inl NilDereference
                 | Inr quotientBn \<Rightarrow>
                     let q1 = quotientBn\<lparr>positive := Some quotientPositive,
                                        negative := Some quotientNegative,
                                        value' := Some (applyRounding bn
                                          (quotientPositive - quotientNegative))\<rparr>;
                         q2 = (if quotientPositive < quotientNegative
                               then q1\<lparr>positive := Some quotientNegative,
                                       negative := Some quotientPositive\<rparr>
                               else q1)
                     in
                     bindR (deref (positive q2)) (\<lambda>a.
                     bindR (deref (negative q2)) (\<lambda>b.
                       Inr (q2\<lparr>value' := Some (a - b)\<rparr>)))))))))))))"

definition Modulo :: "BigNumber \<Rightarrow> BigNumber \<Rightarrow> failure + BigNumber" where
  "Modulo bn other =
     (case checkPrecision bn other of
        Some f \<Rightarrow> Inl f
      | None \<Rightarrow>
     (case checkSpecialCases bn other of
        Some f \<Rightarrow> Inl f
      | None \<Rightarrow>
          bindR (IsZero other) (\<lambda>z.
            if z then Inl (BigNumberError DivisionByZeroError)
            else
              let scaleFactor = scaleForPrecision bn in
              bindR (deref (positive bn)) (\<lambda>p.
              bindR (deref (negative bn)) (\<lambda>n.
              bindR (deref (positive other)) (\<lambda>p'.
              bindR (deref (negative other)) (\<lambda>n'.
              bindR (big_Mod (p * scaleFactor) (p' * scaleFactor)) (\<lambda>remainderPositive.
              bindR (big_Mod (n * scaleFactor) (n' * scaleFactor)) (\<lambda>remainderNegative.
                (case NewBigNumber [] (precision bn) (rounding bn) of
                   Inl _ \<Rightarrow> Inl NilDereference
                 | Inr remainderBn \<Rightarrow>
                     Inr (remainderBn\<lparr>positive := Some remainderPositive,
                                     negative := Some remainderNegative,
                                     value' := Some (remainderPositive - remainderNegative)\<rparr>)))))))))))"

text \<open>\<^verbatim>\<open>Round\<close> hands back its receiver when the precision is the one it has.\<close>

definition Round :: "BigNumber \<Rightarrow> 64 word \<Rightarrow> failure + BigNumber" where
  "Round bn prec =
     (if prec = precision bn then Inr bn
      else
        bindR (deref (value' bn)) (\<lambda>v.
          Inr \<lparr>positive = None, negative = None, precision = prec, rounding = rounding bn,
               isInf = False, isNan = False, value' = Some (applyRounding bn v)\<rparr>))"

subsection \<open>Rendering and comparison\<close>

definition digit_char :: "nat \<Rightarrow> char" where
  "digit_char d = ''0123456789'' ! d"

fun dec_digits :: "nat \<Rightarrow> string" where
  "dec_digits n =
     (if n < 10 then [digit_char n]
      else dec_digits (n div 10) @ [digit_char (n mod 10)])"

declare dec_digits.simps [simp del]

text \<open>\<^verbatim>\<open>Int.String()\<close>: the decimal digits, after a minus sign for a negative number.\<close>

definition big_String :: "int \<Rightarrow> string" where
  "big_String v = (if v < 0 then ''-'' @ dec_digits (nat (- v)) else dec_digits (nat v))"

text \<open>
  \<^verbatim>\<open>String\<close>: \<^verbatim>\<open>decimalIndex\<close> is computed in Go's \<^verbatim>\<open>int\<close>, so it is a 64-bit word read
  as signed; a slice bound past the text and a negative repeat count are panics.
\<close>

definition String :: "BigNumber \<Rightarrow> failure + string" where
  "String bn =
     (if isInf bn then Inr ''Infinity''
      else if isNan bn then Inr ''NaN''
      else
        bindR (deref (value' bn)) (\<lambda>v.
          let sign = (if v < 0 then ''-'' else []);
              str = big_String \<bar>v\<bar>
          in
          if 0 < precision bn then
            (let decimalIndex = (word_of_nat (length str) :: 64 word) - precision bn in
             if sint decimalIndex < 0 then
               (if sint (- decimalIndex) < 0 then Inl NegativeRepeatCount
                else Inr (sign @ replicate (nat (sint (- decimalIndex))) CHR ''0''
                            @ ''.'' @ str))
             else if decimalIndex = 0 then Inr (sign @ ''0.'' @ str)
             else if length str < nat (sint decimalIndex) then Inl IndexOutOfRange
             else Inr (sign @ take (nat (sint decimalIndex)) str @ ''.''
                         @ drop (nat (sint decimalIndex)) str))
          else Inr (sign @ ''0'')))"

text \<open>
  \<^verbatim>\<open>Int.Cmp\<close>: two nil pointers are the same pointer and compare as 0; one nil pointer
  next to a number is a nil dereference.
\<close>

definition big_Cmp :: "int option \<Rightarrow> int option \<Rightarrow> failure + int" where
  "big_Cmp x y =
     (case (x, y) of
        (None, None) \<Rightarrow> Inr 0
      | (Some a, Some b) \<Rightarrow> Inr (if a < b then - 1 else if a = b then 0 else 1)
      | _ \<Rightarrow> Inl NilDereference)"

definition Equal :: "BigNumber \<Rightarrow> BigNumber \<Rightarrow> failure + bool" where
  "Equal bn other =
     (if isInf bn \<and> isInf other \<or> isNan bn \<and> isNan other then Inr True
      else bindR (big_Cmp (value' bn) (value' other)) (\<lambda>c. Inr (c = 0)))"

definition LessThan :: "BigNumber \<Rightarrow> BigNumber \<Rightarrow> failure + bool" where
  "LessThan bn other =
     (if isInf bn \<and> isInf other \<or> isNan bn \<and> isNan other then Inr False
      else bindR (big_Cmp (value' bn) (value' other)) (\<lambda>c. Inr (c < 0)))"

definition GreaterThan :: "BigNumber \<Rightarrow> BigNumber \<Rightarrow> failure + bool" where
  "GreaterThan bn other =
     (if isInf bn \<and> isInf other \<or> isNan bn \<and> isNan other then Inr False
      else bindR (big_Cmp (value' bn) (value' other)) (\<lambda>c. Inr (0 < c)))"

definition LessOrEqual :: "BigNumber \<Rightarrow> BigNumber \<Rightarrow> failure + bool" where
  "LessOrEqual bn other =
     (if isInf bn \<and> isInf other \<or> isNan bn \<and> isNan other then Inr True
      else bindR (big_Cmp (value' bn) (value' other)) (\<lambda>c. Inr (c \<le> 0)))"

definition GreaterOrEqual :: "BigNumber \<Rightarrow> BigNumber \<Rightarrow> failure + bool" where
  "GreaterOrEqual bn other =
     (if isInf bn \<and> isInf other \<or> isNan bn \<and> isNan other then Inr True
      else bindR (big_Cmp (value' bn) (value' other)) (\<lambda>c. Inr (0 \<le> c)))"

subsection \<open>The rounding of the earlier draft\<close>

text \<open>
  The draft of the package that still has \<^verbatim>\<open>applyRounding(precision uint)\<close> scales the
  number up by the target's scale factor and divides by the same factor again.
  \<^verbatim>\<open>NewBigNumber\<close> and \<^verbatim>\<open>String\<close> are the same text in both drafts.
\<close>

definition applyRounding_draft :: "BigNumber \<Rightarrow> 64 word \<Rightarrow> failure + BigNumber" where
  "applyRounding_draft bn prec =
     (if prec = precision bn then Inr bn
      else
        bindR (deref (value' bn)) (\<lambda>v.
          let result = \<lparr>positive = None, negative = None, precision = prec,
                          rounding = rounding bn, isInf = False, isNan = False,
                          value' = None\<rparr>;
              scaleFactor = big_Exp10 prec;
              scaledValue = v * scaleFactor
          in
          (case rounding bn of
             RoundUp \<Rightarrow> Inr (result\<lparr>value' := Some ((scaledValue + 1) div scaleFactor)\<rparr>)
           | RoundDown \<Rightarrow> Inr (result\<lparr>value' := Some (scaledValue div scaleFactor)\<rparr>)
           | RoundToNearest \<Rightarrow>
               let halfScaleFactor = scaleFactor div 2
               in Inr (result\<lparr>value' :=
                         Some ((scaledValue + halfScaleFactor) div scaleFactor)\<rparr>)
           | RoundToEven \<Rightarrow>
               let halfScaleFactor = scaleFactor div 2;
                   s1 = scaledValue + halfScaleFactor;
                   r1 = s1 div scaleFactor;
                   s2 = s1 mod 10
               in
               if s2 = 5 then
                 (let s3 = s2 div 10; s4 = s3 mod 2
                  in Inr (result\<lparr>value' := Some (if s4 = 1 then r1 + 1 else r1)\<rparr>))
               else Inr (result\<lparr>value' := Some r1\<rparr>))))"

definition Round_draft :: "BigNumber \<Rightarrow> 64 word \<Rightarrow> failure + BigNumber" where
  "Round_draft bn prec =
     (if prec = precision bn then Inr bn else applyRounding_draft bn prec)"

subsection \<open>Exp and Log\<close>

text \<open>
  \<^verbatim>\<open>applyRounding\<close> on a pointer read from a record: a nil pointer is handed back
  untouched by the modes without a case of their own, and dereferenced by the other two.
\<close>

definition applyRounding_ptr :: "BigNumber \<Rightarrow> int option \<Rightarrow> failure + int option" where
  "applyRounding_ptr bn p =
     (case p of
        Some v \<Rightarrow> Inr (Some (applyRounding bn v))
      | None \<Rightarrow>
          (case rounding bn of
             RoundToNearest \<Rightarrow> Inl NilDereference
           | RoundToEven \<Rightarrow> Inl NilDereference
           | _ \<Rightarrow> Inr None))"






section \<open>Evaluation at concrete inputs\<close>

lemmas parse_eval =
  NewBigNumber_def ToLower_def lower_char_def big_SetString_def digit_of_def bindR_def
  deref_def big_Exp10_def

lemmas check_eval =
  bindR_def deref_def IsZero_def checkPrecision_def checkSpecialCases_def
  checkOperands_def

lemmas round_eval =
  big_Exp10_def scaleForPrecision_def applyRounding_def applyRounding_ptr_def

lemmas string_eval =
  bindR_def deref_def String_def big_String_def dec_digits.simps digit_char_def

lemmas cmp_eval =
  bindR_def big_Cmp_def Equal_def LessThan_def GreaterThan_def LessOrEqual_def
  GreaterOrEqual_def

text \<open>What the parser returns on the texts used below, for any rounding mode.\<close>

lemma parse_123_45:
  "NewBigNumber ''123.45'' 2 r =
     Inr \<lparr>positive = Some 123, negative = Some 45, precision = 2, rounding = r,
          isInf = False, isNan = False, value' = Some 78\<rparr>"
  by (simp add: parse_eval)

lemma parse_neg_123_45:
  "NewBigNumber ''-123.45'' 2 r =
     Inr \<lparr>positive = Some 45, negative = Some 123, precision = 2, rounding = r,
          isInf = False, isNan = False, value' = Some (- 78)\<rparr>"
  by (simp add: parse_eval)

lemma parse_123_456789_at_2:
  "NewBigNumber ''123.456789'' 2 r =
     Inr \<lparr>positive = Some 123, negative = Some 456789, precision = 2, rounding = r,
          isInf = False, isNan = False, value' = Some (- 456666)\<rparr>"
  by (simp add: parse_eval)

lemma parse_123_456789_at_5:
  "NewBigNumber ''123.456789'' 5 r =
     Inr \<lparr>positive = Some 123, negative = Some 456789, precision = 5, rounding = r,
          isInf = False, isNan = False, value' = Some (- 456666)\<rparr>"
  by (simp add: parse_eval)

lemma parse_123_4567:
  "NewBigNumber ''123.4567'' 4 r =
     Inr \<lparr>positive = Some 123, negative = Some 4567, precision = 4, rounding = r,
          isInf = False, isNan = False, value' = Some (- 4444)\<rparr>"
  by (simp add: parse_eval)

lemma parse_8_9012:
  "NewBigNumber ''8.9012'' 4 r =
     Inr \<lparr>positive = Some 8, negative = Some 9012, precision = 4, rounding = r,
          isInf = False, isNan = False, value' = Some (- 9004)\<rparr>"
  by (simp add: parse_eval)

lemma parse_67_890:
  "NewBigNumber ''67.890'' 3 r =
     Inr \<lparr>positive = Some 67, negative = Some 890, precision = 3, rounding = r,
          isInf = False, isNan = False, value' = Some (- 823)\<rparr>"
  by (simp add: parse_eval)

lemma parse_6_5:
  "NewBigNumber ''6.5'' 2 r =
     Inr \<lparr>positive = Some 6, negative = Some 50, precision = 2, rounding = r,
          isInf = False, isNan = False, value' = Some (- 44)\<rparr>"
  by (simp add: parse_eval)

lemma parse_2_5:
  "NewBigNumber ''2.5'' 2 r =
     Inr \<lparr>positive = Some 2, negative = Some 50, precision = 2, rounding = r,
          isInf = False, isNan = False, value' = Some (- 48)\<rparr>"
  by (simp add: parse_eval)

lemma parse_12345678:
  "NewBigNumber ''12345678'' 5 r =
     Inr \<lparr>positive = Some 12345678, negative = Some 0, precision = 5, rounding = r,
          isInf = False, isNan = False, value' = Some 12345678\<rparr>"
  by (simp add: parse_eval)

lemma parse_12345:
  "NewBigNumber ''12345'' 2 r =
     Inr \<lparr>positive = Some 12345, negative = Some 0, precision = 2, rounding = r,
          isInf = False, isNan = False, value' = Some 12345\<rparr>"
  by (simp add: parse_eval)

lemma parse_one_digit:
  "NewBigNumber ''0'' p r =
     Inr \<lparr>positive = Some 0, negative = Some 0, precision = p, rounding = r,
          isInf = False, isNan = False, value' = Some 0\<rparr>"
  "NewBigNumber ''2'' p r =
     Inr \<lparr>positive = Some 2, negative = Some 0, precision = p, rounding = r,
          isInf = False, isNan = False, value' = Some 2\<rparr>"
  "NewBigNumber ''5'' p r =
     Inr \<lparr>positive = Some 5, negative = Some 0, precision = p, rounding = r,
          isInf = False, isNan = False, value' = Some 5\<rparr>"
  "NewBigNumber ''6'' p r =
     Inr \<lparr>positive = Some 6, negative = Some 0, precision = p, rounding = r,
          isInf = False, isNan = False, value' = Some 6\<rparr>"
  "NewBigNumber ''7'' p r =
     Inr \<lparr>positive = Some 7, negative = Some 0, precision = p, rounding = r,
          isInf = False, isNan = False, value' = Some 7\<rparr>"
  by (simp_all add: parse_eval)

lemma parse_special:
  "NewBigNumber ''inf'' p r =
     Inr \<lparr>positive = None, negative = None, precision = p, rounding = r,
          isInf = True, isNan = False, value' = None\<rparr>"
  "NewBigNumber ''NaN'' p r =
     Inr \<lparr>positive = None, negative = None, precision = p, rounding = r,
          isInf = False, isNan = True, value' = None\<rparr>"
  by (simp_all add: parse_eval)

lemma isl_bindR: "(\<And>x. isl (f x)) \<Longrightarrow> isl (bindR m f)"
  by (cases m) (simp_all add: bindR_def)

lemma NewBigNumber_empty: "NewBigNumber [] p r = Inl (BigNumberError InvalidInputError)"
  by (simp add: NewBigNumber_def ToLower_def)

section \<open>Parsing\<close>

text \<open>
  C1. The claim: a text \<open>-?digits(.digits)?\<close> parsed at precision \<open>p\<close> gives the magnitude
  \<open>sign * (integerDigits * 10^p + fractionalDigits)\<close>, the fraction cut (not rounded) or
  zero-padded to \<open>p\<close> digits. The package's tests expect \<^verbatim>\<open>"123.45"\<close> at precision 2 to
  render as \<^verbatim>\<open>"123.45"\<close>, that is the magnitude 12345. \<^verbatim>\<open>NewBigNumber\<close> instead stores
  the integer digits in one part, the scaled fraction in the other and their difference as
  the number: 123 - 45 = 78 for \<^verbatim>\<open>"123.45"\<close>, 45 - 123 for \<^verbatim>\<open>"-123.45"\<close>; and the fraction
  is converted before the text is cut, so \<^verbatim>\<open>"123.456789"\<close> at precision 2 keeps all six
  digits, 123 - 456789.
\<close>

theorem C1_NewBigNumber_subtracts_fraction:
  "NewBigNumber ''123.45'' 2 RoundToNearest =
     Inr \<lparr>positive = Some 123, negative = Some 45, precision = 2,
          rounding = RoundToNearest, isInf = False, isNan = False, value' = Some 78\<rparr>
   \<and> NewBigNumber ''-123.45'' 2 RoundToNearest =
     Inr \<lparr>positive = Some 45, negative = Some 123, precision = 2,
          rounding = RoundToNearest, isInf = False, isNan = False, value' = Some (- 78)\<rparr>
   \<and> NewBigNumber ''123.456789'' 2 RoundToNearest =
     Inr \<lparr>positive = Some 123, negative = Some 456789, precision = 2,
          rounding = RoundToNearest, isInf = False, isNan = False,
          value' = Some (- 456666)\<rparr>"
  by (simp add: parse_123_45 parse_neg_123_45 parse_123_456789_at_2)

section \<open>Addition\<close>

text \<open>
  C2. The claim: \<^verbatim>\<open>Add\<close> of two finite operands of equal precision succeeds with the exact
  sum of the magnitudes, and \<^verbatim>\<open>"123.4567" + "8.9012"\<close> at precision 4 renders as
  \<^verbatim>\<open>"132.3579"\<close> (the example of the package's README, under \<^verbatim>\<open>RoundToNearest\<close>).
  The code parses the operands to 123 - 4567 and 8 - 9012, adds them to -13448, and
  under \<^verbatim>\<open>RoundToNearest\<close> replaces the sum by (-13448 + 5000) div 10000 = -1, rendered
  \<^verbatim>\<open>"-000.1"\<close>; under \<^verbatim>\<open>RoundDown\<close> the sum is kept and rendered \<^verbatim>\<open>"-1.3448"\<close>. Two zero
  operands are refused with \<^verbatim>\<open>UndefinedOperationError\<close>.
\<close>

theorem C2_Add_scenario_value:
  "bindR (NewBigNumber ''123.4567'' 4 RoundToNearest) (\<lambda>a.
     bindR (NewBigNumber ''8.9012'' 4 RoundToNearest) (\<lambda>b. Add a b)) =
     Inr \<lparr>positive = Some 131, negative = Some 13579, precision = 4,
          rounding = RoundToNearest, isInf = False, isNan = False, value' = Some (- 1)\<rparr>
   \<and> bindR (NewBigNumber ''123.4567'' 4 RoundToNearest) (\<lambda>a.
     bindR (NewBigNumber ''8.9012'' 4 RoundToNearest) (\<lambda>b.
     bindR (Add a b) String)) = Inr ''-000.1''
   \<and> bindR (NewBigNumber ''123.4567'' 4 RoundDown) (\<lambda>a.
     bindR (NewBigNumber ''8.9012'' 4 RoundDown) (\<lambda>b.
     bindR (Add a b) String)) = Inr ''-1.3448''
   \<and> bindR (NewBigNumber ''0'' 4 RoundDown) (\<lambda>a.
     bindR (NewBigNumber ''0'' 4 RoundDown) (\<lambda>b. Add a b)) =
     Inl (BigNumberError UndefinedOperationError)"
proof -
  have sum_nearest: "bindR (NewBigNumber ''123.4567'' 4 RoundToNearest) (\<lambda>a.
     bindR (NewBigNumber ''8.9012'' 4 RoundToNearest) (\<lambda>b. Add a b)) =
     Inr \<lparr>positive = Some 131, negative = Some 13579, precision = 4,
          rounding = RoundToNearest, isInf = False, isNan = False, value' = Some (- 1)\<rparr>"
    by (simp add: parse_123_4567 parse_8_9012 Add_def check_eval round_eval)
  have sum_down: "bindR (NewBigNumber ''123.4567'' 4 RoundDown) (\<lambda>a.
     bindR (NewBigNumber ''8.9012'' 4 RoundDown) (\<lambda>b. Add a b)) =
     Inr \<lparr>positive = Some 131, negative = Some 13579, precision = 4,
          rounding = RoundDown, isInf = False, isNan = False, value' = Some (- 13448)\<rparr>"
    by (simp add: parse_123_4567 parse_8_9012 Add_def check_eval round_eval)
  have three: "replicate 3 CHR ''0'' = ''000''"
    by (simp add: numeral_3_eq_3)
  have text_nearest: "String \<lparr>positive = Some 131, negative = Some 13579, precision = 4,
          rounding = RoundToNearest, isInf = False, isNan = False, value' = Some (- 1)\<rparr>
        = Inr ''-000.1''"
    by (simp add: string_eval three)
  have text_down: "String \<lparr>positive = Some 131, negative = Some 13579, precision = 4,
          rounding = RoundDown, isInf = False, isNan = False, value' = Some (- 13448)\<rparr>
        = Inr ''-1.3448''"
    by (simp add: string_eval)
  have c2: "bindR (NewBigNumber ''123.4567'' 4 RoundToNearest) (\<lambda>a.
     bindR (NewBigNumber ''8.9012'' 4 RoundToNearest) (\<lambda>b.
     bindR (Add a b) String)) = Inr ''-000.1''"
    using sum_nearest text_nearest by (simp add: parse_123_4567 parse_8_9012 bindR_def)
  have c3: "bindR (NewBigNumber ''123.4567'' 4 RoundDown) (\<lambda>a.
     bindR (NewBigNumber ''8.9012'' 4 RoundDown) (\<lambda>b.
     bindR (Add a b) String)) = Inr ''-1.3448''"
    using sum_down text_down by (simp add: parse_123_4567 parse_8_9012 bindR_def)
  have c4: "bindR (NewBigNumber ''0'' 4 RoundDown) (\<lambda>a.
     bindR (NewBigNumber ''0'' 4 RoundDown) (\<lambda>b. Add a b)) =
     Inl (BigNumberError UndefinedOperationError)"
    by (simp add: parse_one_digit Add_def check_eval)
  show ?thesis using sum_nearest c2 c3 c4 by blast
qed

section \<open>Round\<close>

text \<open>
  C3. The claim: \<^verbatim>\<open>Round(t)\<close> gives the operand's number at \<open>t\<close> fractional digits under
  the stored mode; a larger \<open>t\<close> keeps the number, \<^verbatim>\<open>RoundDown\<close> truncates, and
  \<^verbatim>\<open>"123.456789"\<close> at precision 5 rounded to 2 under \<^verbatim>\<open>RoundToNearest\<close> renders
  \<^verbatim>\<open>"123.46"\<close> (the package's \<^verbatim>\<open>TestRound\<close>). \<^verbatim>\<open>Round\<close> copies the number and hands it
  to \<^verbatim>\<open>applyRounding\<close>, which never sees the target precision: it divides by the scale of
  the receiver's own precision (or, for \<^verbatim>\<open>RoundUp\<close> and \<^verbatim>\<open>RoundDown\<close>, leaves the number
  as it is) and only the precision field is set to \<open>t\<close>. The scenario renders \<^verbatim>\<open>"-0.5"\<close>;
  in the earlier draft's \<^verbatim>\<open>applyRounding(precision)\<close> it renders \<^verbatim>\<open>"-4566.66"\<close>. With the
  operand 12345678 at precision 5 (the magnitude the claim gives 123.45678), the result
  is 123 at precision 2, \<^verbatim>\<open>"1.23"\<close>; and 12345 at precision 2 under \<^verbatim>\<open>RoundDown\<close>,
  rounded to precision 4, is still 12345: 123.45 has become 1.2345.
\<close>

theorem C3_Round_scenario_value:
  "bindR (NewBigNumber ''123.456789'' 5 RoundToNearest) (\<lambda>a. Round a 2) =
     Inr \<lparr>positive = None, negative = None, precision = 2, rounding = RoundToNearest,
          isInf = False, isNan = False, value' = Some (- 5)\<rparr>
   \<and> bindR (NewBigNumber ''123.456789'' 5 RoundToNearest) (\<lambda>a.
       bindR (Round a 2) String) = Inr ''-0.5''
   \<and> bindR (NewBigNumber ''123.456789'' 5 RoundToNearest) (\<lambda>a.
       bindR (Round_draft a 2) String) = Inr ''-4566.66''
   \<and> bindR (NewBigNumber ''12345678'' 5 RoundToNearest) (\<lambda>a. Round a 2) =
     Inr \<lparr>positive = None, negative = None, precision = 2, rounding = RoundToNearest,
          isInf = False, isNan = False, value' = Some 123\<rparr>
   \<and> bindR (NewBigNumber ''12345678'' 5 RoundToNearest) (\<lambda>a.
       bindR (Round a 2) String) = Inr ''1.23''
   \<and> bindR (NewBigNumber ''12345'' 2 RoundDown) (\<lambda>a. Round a 4) =
     Inr \<lparr>positive = None, negative = None, precision = 4, rounding = RoundDown,
          isInf = False, isNan = False, value' = Some 12345\<rparr>"
proof -
  have r1: "bindR (NewBigNumber ''123.456789'' 5 RoundToNearest) (\<lambda>a. Round a 2) =
     Inr \<lparr>positive = None, negative = None, precision = 2, rounding = RoundToNearest,
          isInf = False, isNan = False, value' = Some (- 5)\<rparr>"
    by (simp add: parse_123_456789_at_5 Round_def bindR_def deref_def round_eval)
  have t1: "String \<lparr>positive = None, negative = None, precision = 2,
          rounding = RoundToNearest, isInf = False, isNan = False, value' = Some (- 5)\<rparr>
        = Inr ''-0.5''"
    by (simp add: string_eval)
  have c2: "bindR (NewBigNumber ''123.456789'' 5 RoundToNearest) (\<lambda>a.
       bindR (Round a 2) String) = Inr ''-0.5''"
    using r1 t1 by (simp add: parse_123_456789_at_5 bindR_def)
  have d1: "bindR (NewBigNumber ''123.456789'' 5 RoundToNearest) (\<lambda>a. Round_draft a 2) =
     Inr \<lparr>positive = None, negative = None, precision = 2, rounding = RoundToNearest,
          isInf = False, isNan = False, value' = Some (- 456666)\<rparr>"
    by (simp add: parse_123_456789_at_5 Round_draft_def applyRounding_draft_def bindR_def
        deref_def big_Exp10_def)
  have t2: "String \<lparr>positive = None, negative = None, precision = 2,
          rounding = RoundToNearest, isInf = False, isNan = False,
          value' = Some (- 456666)\<rparr> = Inr ''-4566.66''"
    by (simp add: string_eval)
  have c3: "bindR (NewBigNumber ''123.456789'' 5 RoundToNearest) (\<lambda>a.
       bindR (Round_draft a 2) String) = Inr ''-4566.66''"
    using d1 t2 by (simp add: parse_123_456789_at_5 bindR_def)
  have r2: "bindR (NewBigNumber ''12345678'' 5 RoundToNearest) (\<lambda>a. Round a 2) =
     Inr \<lparr>positive = None, negative = None, precision = 2, rounding = RoundToNearest,
          isInf = False, isNan = False, value' = Some 123\<rparr>"
    by (simp add: parse_12345678 Round_def bindR_def deref_def round_eval)
  have t3: "String \<lparr>positive = None, negative = None, precision = 2,
          rounding = RoundToNearest, isInf = False, isNan = False, value' = Some 123\<rparr>
        = Inr ''1.23''"
    by (simp add: string_eval)
  have c5: "bindR (NewBigNumber ''12345678'' 5 RoundToNearest) (\<lambda>a.
       bindR (Round a 2) String) = Inr ''1.23''"
    using r2 t3 by (simp add: parse_12345678 bindR_def)
  have r3: "bindR (NewBigNumber ''12345'' 2 RoundDown) (\<lambda>a. Round a 4) =
     Inr \<lparr>positive = None, negative = None, precision = 4, rounding = RoundDown,
          isInf = False, isNan = False, value' = Some 12345\<rparr>"
    by (simp add: parse_12345 Round_def bindR_def deref_def round_eval)
  show ?thesis using r1 c2 c3 r2 c5 r3 by blast
qed

section \<open>Division\<close>

text \<open>
  C4. The claim: \<^verbatim>\<open>Divide\<close> and \<^verbatim>\<open>Modulo\<close> fail only with \<^verbatim>\<open>PrecisionError\<close>,
  \<^verbatim>\<open>UndefinedOperationError\<close> or \<^verbatim>\<open>DivisionByZeroError\<close>, and \<^verbatim>\<open>Divide\<close> by a nonzero
  divisor of equal precision returns a quotient and never crashes (the package's
  \<^verbatim>\<open>TestDivide\<close> expects 1.81 for 123.45 / 67.89). In the code, 6 / 2 at precision 2
  divides the two negative parts, 0 by 0, which is math/big's division-by-zero panic;
  6.5 / 2.5 gets past both divisions and panics on the nil record that
  \<^verbatim>\<open>NewBigNumber("", ...)\<close> returned. No call of \<^verbatim>\<open>Divide\<close> or \<^verbatim>\<open>Modulo\<close> returns a number:
  every one ends in an error or a panic (\<open>isl\<close>).
\<close>

theorem C4_Divide_never_returns:
  "bindR (NewBigNumber ''6'' 2 RoundDown) (\<lambda>a.
     bindR (NewBigNumber ''2'' 2 RoundDown) (\<lambda>b. Divide a b)) = Inl DivisionByZeroPanic
   \<and> bindR (NewBigNumber ''6.5'' 2 RoundDown) (\<lambda>a.
     bindR (NewBigNumber ''2.5'' 2 RoundDown) (\<lambda>b. Divide a b)) = Inl NilDereference
   \<and> bindR (NewBigNumber ''6.5'' 2 RoundDown) (\<lambda>a.
     bindR (NewBigNumber ''2.5'' 2 RoundDown) (\<lambda>b. Modulo a b)) = Inl NilDereference
   \<and> (\<forall>bn other. isl (Divide bn other) \<and> isl (Modulo bn other))"
proof -
  have "isl (Divide bn other)" for bn other
    unfolding Divide_def
    by (auto split: option.split simp: NewBigNumber_empty Let_def intro!: isl_bindR)
  moreover have "isl (Modulo bn other)" for bn other
    unfolding Modulo_def
    by (auto split: option.split simp: NewBigNumber_empty Let_def intro!: isl_bindR)
  moreover have "bindR (NewBigNumber ''6'' 2 RoundDown) (\<lambda>a.
     bindR (NewBigNumber ''2'' 2 RoundDown) (\<lambda>b. Divide a b)) = Inl DivisionByZeroPanic"
    by (simp add: parse_one_digit Divide_def check_eval big_Div_def scaleForPrecision_def
        big_Exp10_def)
  moreover have "bindR (NewBigNumber ''6.5'' 2 RoundDown) (\<lambda>a.
     bindR (NewBigNumber ''2.5'' 2 RoundDown) (\<lambda>b. Divide a b)) = Inl NilDereference"
    by (simp add: parse_6_5 parse_2_5 Divide_def check_eval big_Div_def
        scaleForPrecision_def big_Exp10_def NewBigNumber_empty)
  moreover have "bindR (NewBigNumber ''6.5'' 2 RoundDown) (\<lambda>a.
     bindR (NewBigNumber ''2.5'' 2 RoundDown) (\<lambda>b. Modulo a b)) = Inl NilDereference"
    by (simp add: parse_6_5 parse_2_5 Modulo_def check_eval big_Mod_def
        scaleForPrecision_def big_Exp10_def NewBigNumber_empty)
  ultimately show ?thesis by blast
qed

section \<open>Multiplication\<close>

text \<open>
  C5. The claim: \<^verbatim>\<open>Multiply\<close> never fails with \<^verbatim>\<open>PrecisionError\<close>, whatever the two
  precisions, and its result has precision \<open>p1 + p2\<close> (the package's \<^verbatim>\<open>TestMultiply\<close>
  multiplies 123.45 at precision 2 by 67.890 at precision 3 and expects a number at
  precision 5). \<^verbatim>\<open>Multiply\<close> starts with \<^verbatim>\<open>checkOperands\<close>, whose first step is
  \<^verbatim>\<open>checkPrecision\<close>: the test's operands are refused with \<^verbatim>\<open>PrecisionError\<close>.
\<close>

theorem C5_Multiply_refuses_unequal_precision:
  "bindR (NewBigNumber ''123.45'' 2 RoundToNearest) (\<lambda>a.
     bindR (NewBigNumber ''67.890'' 3 RoundToNearest) (\<lambda>b. Multiply a b))
     = Inl (BigNumberError PrecisionError)"
  by (simp add: parse_123_45 parse_67_890 Multiply_def check_eval)

section \<open>Division by zero\<close>

text \<open>
  C6. The claim: for every finite \<open>a\<close>, zero included, and a finite zero divisor of the
  same precision, \<^verbatim>\<open>Divide\<close> and \<^verbatim>\<open>Modulo\<close> fail with \<^verbatim>\<open>DivisionByZeroError\<close>.
  \<^verbatim>\<open>checkSpecialCases\<close> runs before the zero test of the divisor and refuses two zero
  operands with \<^verbatim>\<open>UndefinedOperationError\<close>, so 0 / 0 and 0 mod 0 do not reach it.
\<close>

theorem C6_zero_by_zero_is_undefined:
  "bindR (NewBigNumber ''0'' 2 RoundToNearest) (\<lambda>a.
     bindR (NewBigNumber ''0'' 2 RoundToNearest) (\<lambda>z. Divide a z))
     = Inl (BigNumberError UndefinedOperationError)
   \<and> bindR (NewBigNumber ''0'' 2 RoundToNearest) (\<lambda>a.
     bindR (NewBigNumber ''0'' 2 RoundToNearest) (\<lambda>z. Modulo a z))
     = Inl (BigNumberError UndefinedOperationError)
   \<and> BigNumberError UndefinedOperationError \<noteq> BigNumberError DivisionByZeroError"
  by (simp add: parse_one_digit Divide_def Modulo_def check_eval)

text \<open>
  C6 as amended: for finite \<open>a\<close> and a finite zero divisor \<open>z\<close> of the same precision,
  \<^verbatim>\<open>Divide\<close> and \<^verbatim>\<open>Modulo\<close> fail with \<^verbatim>\<open>DivisionByZeroError\<close> when \<open>a\<close> is not zero, and
  with \<^verbatim>\<open>UndefinedOperationError\<close> when \<open>a\<close> is zero too. Finite means neither flag is
  set and the number is there.
\<close>

theorem C6_Divide_Modulo_by_zero:
  assumes "\<not> isInf a" and "\<not> isNan a" and "\<not> isInf z" and "\<not> isNan z"
    and "precision a = precision z"
    and "value' a = Some va" and "value' z = Some 0"
  shows "Divide a z =
           Inl (BigNumberError
                  (if va = 0 then UndefinedOperationError else DivisionByZeroError))
       \<and> Modulo a z =
           Inl (BigNumberError
                  (if va = 0 then UndefinedOperationError else DivisionByZeroError))"
  using assms by (simp add: Divide_def Modulo_def check_eval)

theorem C6_Divide_Modulo_by_zero_witness:
  "NewBigNumber ''5'' 2 RoundToNearest =
     Inr \<lparr>positive = Some 5, negative = Some 0, precision = 2, rounding = RoundToNearest,
          isInf = False, isNan = False, value' = Some 5\<rparr>
   \<and> NewBigNumber ''0'' 2 RoundToNearest =
     Inr \<lparr>positive = Some 0, negative = Some 0, precision = 2, rounding = RoundToNearest,
          isInf = False, isNan = False, value' = Some 0\<rparr>
   \<and> Divide
        \<lparr>positive = Some 5, negative = Some 0, precision = 2, rounding = RoundToNearest,
          isInf = False, isNan = False, value' = Some 5\<rparr>
        \<lparr>positive = Some 0, negative = Some 0, precision = 2, rounding = RoundToNearest,
          isInf = False, isNan = False, value' = Some 0\<rparr>
       = Inl (BigNumberError DivisionByZeroError)
   \<and> Modulo
        \<lparr>positive = Some 5, negative = Some 0, precision = 2, rounding = RoundToNearest,
          isInf = False, isNan = False, value' = Some 5\<rparr>
        \<lparr>positive = Some 0, negative = Some 0, precision = 2, rounding = RoundToNearest,
          isInf = False, isNan = False, value' = Some 0\<rparr>
       = Inl (BigNumberError DivisionByZeroError)"
  using C6_Divide_Modulo_by_zero
    [of "\<lparr>positive = Some 5, negative = Some 0, precision = 2, rounding = RoundToNearest,
          isInf = False, isNan = False, value' = Some 5\<rparr>"
        "\<lparr>positive = Some 0, negative = Some 0, precision = 2, rounding = RoundToNearest,
          isInf = False, isNan = False, value' = Some 0\<rparr>" 5]
  by (simp add: parse_one_digit)

section \<open>Round trip through the decimal text\<close>

text \<open>
  C8. The claim: rendering a finite number and parsing the text back at the same
  precision and mode gives an equal number. The number 12345 at precision 2 (parsed
  from \<^verbatim>\<open>"12345"\<close>) renders as \<^verbatim>\<open>"123.45"\<close>, which parses to 123 - 45 = 78, and
  \<^verbatim>\<open>Equal\<close> of the two is false. At precision 0 every number renders as \<^verbatim>\<open>"0"\<close>: 7 comes
  back as 0.
\<close>

theorem C8_round_trip_differs:
  "bindR (NewBigNumber ''12345'' 2 RoundDown) (\<lambda>x.
     bindR (String x) (\<lambda>s.
     bindR (NewBigNumber s 2 RoundDown) (\<lambda>y.
     bindR (Equal y x) (\<lambda>e. Inr (value' x, s, value' y, e)))))
     = Inr (Some 12345, ''123.45'', Some 78, False)
   \<and> bindR (NewBigNumber ''7'' 0 RoundDown) (\<lambda>x.
     bindR (String x) (\<lambda>s.
     bindR (NewBigNumber s 0 RoundDown) (\<lambda>y.
     bindR (Equal y x) (\<lambda>e. Inr (value' x, s, value' y, e)))))
     = Inr (Some 7, ''0'', Some 0, False)"
proof -
  have t1: "String \<lparr>positive = Some 12345, negative = Some 0, precision = 2,
          rounding = RoundDown, isInf = False, isNan = False, value' = Some 12345\<rparr>
        = Inr ''123.45''"
    by (simp add: string_eval)
  have t2: "String \<lparr>positive = Some 7, negative = Some 0, precision = 0,
          rounding = RoundDown, isInf = False, isNan = False, value' = Some 7\<rparr>
        = Inr ''0''"
    by (simp add: string_eval)
  have c1: "bindR (NewBigNumber ''12345'' 2 RoundDown) (\<lambda>x.
     bindR (String x) (\<lambda>s.
     bindR (NewBigNumber s 2 RoundDown) (\<lambda>y.
     bindR (Equal y x) (\<lambda>e. Inr (value' x, s, value' y, e)))))
     = Inr (Some 12345, ''123.45'', Some 78, False)"
    by (simp add: parse_12345 t1 parse_123_45 bindR_def Equal_def big_Cmp_def)
  have c2: "bindR (NewBigNumber ''7'' 0 RoundDown) (\<lambda>x.
     bindR (String x) (\<lambda>s.
     bindR (NewBigNumber s 0 RoundDown) (\<lambda>y.
     bindR (Equal y x) (\<lambda>e. Inr (value' x, s, value' y, e)))))
     = Inr (Some 7, ''0'', Some 0, False)"
    by (simp add: parse_one_digit t2 bindR_def Equal_def big_Cmp_def)
  show ?thesis using c1 c2 by blast
qed

section \<open>Comparison\<close>

text \<open>
  C9. The claim: the five comparisons are total; two infinities are equal, two
  not-a-numbers are equal, and an infinity or a not-a-number against a finite number
  gives a boolean (the package's \<^verbatim>\<open>TestLessThan\<close> expects 123.45 to be less than both).
  The two equalities hold. In a mixed comparison the special operand's number is the nil
  pointer and \<^verbatim>\<open>Int.Cmp\<close> dereferences it: each of the five calls panics, with the finite
  operand on either side.
\<close>

theorem C9_mixed_comparison_panics:
  "bindR (NewBigNumber ''inf'' 2 RoundToNearest) (\<lambda>a.
     bindR (NewBigNumber ''inf'' 2 RoundToNearest) (\<lambda>b. Equal a b)) = Inr True
   \<and> bindR (NewBigNumber ''NaN'' 2 RoundToNearest) (\<lambda>a.
     bindR (NewBigNumber ''NaN'' 2 RoundToNearest) (\<lambda>b. Equal a b)) = Inr True
   \<and> bindR (NewBigNumber ''123.45'' 2 RoundToNearest) (\<lambda>a.
     bindR (NewBigNumber ''inf'' 2 RoundToNearest) (\<lambda>b.
       Inr [LessThan a b, Equal a b, GreaterThan a b, LessOrEqual a b, GreaterOrEqual a b,
            LessThan b a, Equal b a, GreaterThan b a, LessOrEqual b a, GreaterOrEqual b a]))
     = Inr (replicate 10 (Inl NilDereference))
   \<and> bindR (NewBigNumber ''123.45'' 2 RoundToNearest) (\<lambda>a.
     bindR (NewBigNumber ''NaN'' 2 RoundToNearest) (\<lambda>b.
       Inr [LessThan a b, Equal a b, GreaterThan a b, LessOrEqual a b, GreaterOrEqual a b,
            LessThan b a, Equal b a, GreaterThan b a, LessOrEqual b a, GreaterOrEqual b a]))
     = Inr (replicate 10 (Inl NilDereference))"
proof -
  have ten: "replicate 10 (Inl NilDereference :: failure + bool) =
      [Inl NilDereference, Inl NilDereference, Inl NilDereference, Inl NilDereference,
       Inl NilDereference, Inl NilDereference, Inl NilDereference, Inl NilDereference,
       Inl NilDereference, Inl NilDereference]"
    by (simp add: eval_nat_numeral)
  show ?thesis
    unfolding ten by (simp add: parse_special parse_123_45 cmp_eval)
qed

section \<open>Rounding inside Add and Subtract\<close>

lemma sint_small: "unat (w :: 64 word) < 2 ^ 63 \<Longrightarrow> sint w = int (unat w)"
proof -
  assume a: "unat w < 2 ^ 63"
  have "int (unat w) < int (2 ^ 63)" using a by (simp only: of_nat_less_iff)
  then have b: "uint w < 2 ^ 63" by simp
  have c: "- (2 ^ 63) \<le> uint w"
    by (rule order_trans [of _ 0]) simp_all
  have "signed_take_bit 63 (uint w) = uint w"
    using c b by (rule signed_take_bit_int_eq_self)
  moreover have "sint w = signed_take_bit 63 (uint w)"
    using sint_uint [of w] by simp
  ultimately show ?thesis by simp
qed

lemma big_Exp10_small: "unat e < 2 ^ 63 \<Longrightarrow> big_Exp10 e = 10 ^ unat e"
  by (auto simp add: big_Exp10_def sint_small uint_0_iff)

lemma parse_more_integers:
  "NewBigNumber ''1'' p r =
     Inr \<lparr>positive = Some 1, negative = Some 0, precision = p, rounding = r,
          isInf = False, isNan = False, value' = Some 1\<rparr>"
  "NewBigNumber ''8'' p r =
     Inr \<lparr>positive = Some 8, negative = Some 0, precision = p, rounding = r,
          isInf = False, isNan = False, value' = Some 8\<rparr>"
  "NewBigNumber ''100'' p r =
     Inr \<lparr>positive = Some 100, negative = Some 0, precision = p, rounding = r,
          isInf = False, isNan = False, value' = Some 100\<rparr>"
  "NewBigNumber ''266'' p r =
     Inr \<lparr>positive = Some 266, negative = Some 0, precision = p, rounding = r,
          isInf = False, isNan = False, value' = Some 266\<rparr>"
  "NewBigNumber ''1234'' p r =
     Inr \<lparr>positive = Some 1234, negative = Some 0, precision = p, rounding = r,
          isInf = False, isNan = False, value' = Some 1234\<rparr>"
  by (simp_all add: parse_eval)

text \<open>
  C10. The claim: for all finite operands of equal precision \<open>p\<close>, \<^verbatim>\<open>Add\<close> and
  \<^verbatim>\<open>Subtract\<close> store the raw sum or difference of the magnitudes under \<^verbatim>\<open>RoundUp\<close> and
  \<^verbatim>\<open>RoundDown\<close>, and that sum or difference plus half of \<open>10^p\<close>, integer-divided by
  \<open>10^p\<close>, under \<^verbatim>\<open>RoundToNearest\<close> and \<^verbatim>\<open>RoundToEven\<close>. Five inputs where the code
  does something else:
  \<^item> under \<^verbatim>\<open>RoundToEven\<close>, 1234 + 266 at precision 2 stores 0, not
    (1500 + 50) div 100 = 15: the tests of the banker's condition overwrite the quotient
    with its last digit, and with 0 when that digit is 5;
  \<^item> two zero operands are refused with \<^verbatim>\<open>UndefinedOperationError\<close>;
  \<^item> an operand made by \<^verbatim>\<open>Round\<close> has no parts, and \<^verbatim>\<open>Add\<close> dereferences them;
  \<^item> the sum is taken from the operands' parts, not from their numbers: 100 + 100 at
    precision 1 under \<^verbatim>\<open>RoundToNearest\<close> has the parts 200 and 0 and the number 20, and
    adding 1 to it stores (201 + 5) div 10 = 20, not (20 + 1 + 5) div 10 = 2;
  \<^item> at precision \<open>2^63\<close> the scale factor is 1 (the exponent is read as a negative
    \<^verbatim>\<open>int64\<close>), so 7 + 8 stores 15.
\<close>

theorem C10_Add_not_as_claimed:
  "bindR (NewBigNumber ''1234'' 2 RoundToEven) (\<lambda>a.
     bindR (NewBigNumber ''266'' 2 RoundToEven) (\<lambda>b. Add a b)) =
     Inr \<lparr>positive = Some 1500, negative = Some 0, precision = 2, rounding = RoundToEven,
          isInf = False, isNan = False, value' = Some 0\<rparr>
   \<and> (1234 + 266 + 10 ^ 2 div 2) div 10 ^ 2 = (15 :: int)
   \<and> bindR (NewBigNumber ''0'' 2 RoundDown) (\<lambda>a.
     bindR (NewBigNumber ''0'' 2 RoundDown) (\<lambda>b. Add a b)) =
     Inl (BigNumberError UndefinedOperationError)
   \<and> bindR (NewBigNumber ''5'' 2 RoundDown) (\<lambda>a0.
     bindR (Round a0 3) (\<lambda>a.
     bindR (NewBigNumber ''7'' 3 RoundDown) (\<lambda>b. Add a b))) = Inl NilDereference
   \<and> bindR (NewBigNumber ''100'' 1 RoundToNearest) (\<lambda>a0.
     bindR (Add a0 a0) (\<lambda>a.
     bindR (NewBigNumber ''1'' 1 RoundToNearest) (\<lambda>b.
     bindR (Add a b) (\<lambda>c. Inr (value' a, value' b, value' c))))) =
     Inr (Some 20, Some 1, Some 20)
   \<and> (20 + 1 + 10 ^ 1 div 2) div 10 ^ 1 = (2 :: int)
   \<and> bindR (NewBigNumber ''7'' 9223372036854775808 RoundToNearest) (\<lambda>a.
     bindR (NewBigNumber ''8'' 9223372036854775808 RoundToNearest) (\<lambda>b.
     bindR (Add a b) (\<lambda>c. Inr (value' c)))) = Inr (Some 15)"
proof -
  have c1: "bindR (NewBigNumber ''1234'' 2 RoundToEven) (\<lambda>a.
     bindR (NewBigNumber ''266'' 2 RoundToEven) (\<lambda>b. Add a b)) =
     Inr \<lparr>positive = Some 1500, negative = Some 0, precision = 2, rounding = RoundToEven,
          isInf = False, isNan = False, value' = Some 0\<rparr>"
    by (simp add: parse_more_integers Add_def check_eval round_eval)
  have c2: "(1234 + 266 + 10 ^ 2 div 2) div 10 ^ 2 = (15 :: int)"
    by simp
  have c3: "bindR (NewBigNumber ''0'' 2 RoundDown) (\<lambda>a.
     bindR (NewBigNumber ''0'' 2 RoundDown) (\<lambda>b. Add a b)) =
     Inl (BigNumberError UndefinedOperationError)"
    by (simp add: parse_one_digit Add_def check_eval)
  have c4: "bindR (NewBigNumber ''5'' 2 RoundDown) (\<lambda>a0.
     bindR (Round a0 3) (\<lambda>a.
     bindR (NewBigNumber ''7'' 3 RoundDown) (\<lambda>b. Add a b))) = Inl NilDereference"
    by (simp add: parse_one_digit Round_def Add_def check_eval round_eval)
  have c5: "bindR (NewBigNumber ''100'' 1 RoundToNearest) (\<lambda>a0.
     bindR (Add a0 a0) (\<lambda>a.
     bindR (NewBigNumber ''1'' 1 RoundToNearest) (\<lambda>b.
     bindR (Add a b) (\<lambda>c. Inr (value' a, value' b, value' c))))) =
     Inr (Some 20, Some 1, Some 20)"
    by (simp add: parse_more_integers Add_def check_eval round_eval)
  have c6: "(20 + 1 + 10 ^ 1 div 2) div 10 ^ 1 = (2 :: int)"
    by simp
  have c7: "bindR (NewBigNumber ''7'' 9223372036854775808 RoundToNearest) (\<lambda>a.
     bindR (NewBigNumber ''8'' 9223372036854775808 RoundToNearest) (\<lambda>b.
     bindR (Add a b) (\<lambda>c. Inr (value' c)))) = Inr (Some 15)"
    by (simp add: parse_one_digit parse_more_integers Add_def check_eval round_eval)
  show ?thesis using c1 c2 c3 c4 c5 c6 c7 by blast
qed

text \<open>
  C10 as amended: let the operands be finite, of equal precision \<open>p\<close> below \<open>2^63\<close>,
  not both zero, each carrying both parts with its number equal to positive minus
  negative (as \<^verbatim>\<open>NewBigNumber\<close> returns them). Then \<^verbatim>\<open>Add\<close> and \<^verbatim>\<open>Subtract\<close> succeed
  with a finite result of precision \<open>p\<close>, and the number stored depends on the left
  operand's rounding mode: under \<^verbatim>\<open>RoundUp\<close> and \<^verbatim>\<open>RoundDown\<close> it is the raw sum or
  difference of the operands' numbers, under \<^verbatim>\<open>RoundToNearest\<close> it is that sum or
  difference plus half of \<open>10^p\<close>, divided by \<open>10^p\<close> rounding down. Nothing is said of
  \<^verbatim>\<open>RoundToEven\<close>.
\<close>

theorem C10_Add_Subtract_rounding:
  assumes "\<not> isInf a" and "\<not> isNan a" and "\<not> isInf b" and "\<not> isNan b"
    and "positive a = Some pa" and "negative a = Some na" and "value' a = Some (pa - na)"
    and "positive b = Some pb" and "negative b = Some nb" and "value' b = Some (pb - nb)"
    and "precision a = precision b" and "unat (precision a) < 2 ^ 63"
    and "pa - na \<noteq> 0 \<or> pb - nb \<noteq> 0"
    and "rounding a \<noteq> RoundToEven"
  shows "(\<exists>r. Add a b = Inr r \<and> precision r = precision a
               \<and> \<not> isInf r \<and> \<not> isNan r
               \<and> value' r = Some
                    (if rounding a = RoundToNearest
                     then ((pa - na) + (pb - nb) + 10 ^ unat (precision a) div 2)
                            div 10 ^ unat (precision a)
                     else (pa - na) + (pb - nb)))
       \<and> (\<exists>r. Subtract a b = Inr r \<and> precision r = precision a
               \<and> \<not> isInf r \<and> \<not> isNan r
               \<and> value' r = Some
                    (if rounding a = RoundToNearest
                     then ((pa - na) - (pb - nb) + 10 ^ unat (precision a) div 2)
                            div 10 ^ unat (precision a)
                     else (pa - na) - (pb - nb)))"
proof -
  have chk: "checkOperands a b = None"
    using assms by (auto simp: check_eval)
  have sc: "scaleForPrecision a = 10 ^ unat (precision a)"
    using assms by (simp add: scaleForPrecision_def big_Exp10_small)
  have e1: "(pa + pb) - (na + nb) = (pa - na) + (pb - nb)" by simp
  have e2: "(pa - pb) - (na - nb) = (pa - na) - (pb - nb)" by simp
  have add: "\<exists>r. Add a b = Inr r \<and> precision r = precision a
               \<and> \<not> isInf r \<and> \<not> isNan r
               \<and> value' r = Some
                    (if rounding a = RoundToNearest
                     then ((pa - na) + (pb - nb) + 10 ^ unat (precision a) div 2)
                            div 10 ^ unat (precision a)
                     else (pa - na) + (pb - nb))"
    using assms(5,6,8,9,14) chk
    by (cases "rounding a")
      (simp_all add: Add_def bindR_def deref_def applyRounding_def sc e1)
  have sub: "\<exists>r. Subtract a b = Inr r \<and> precision r = precision a
               \<and> \<not> isInf r \<and> \<not> isNan r
               \<and> value' r = Some
                    (if rounding a = RoundToNearest
                     then ((pa - na) - (pb - nb) + 10 ^ unat (precision a) div 2)
                            div 10 ^ unat (precision a)
                     else (pa - na) - (pb - nb))"
    using assms(5,6,8,9,14) chk
    by (cases "rounding a")
      (simp_all add: Subtract_def bindR_def deref_def applyRounding_def sc e2)
  show ?thesis using add sub by blast
qed

theorem C10_Add_Subtract_rounding_witness:
  "NewBigNumber ''1234'' 2 RoundToNearest =
     Inr \<lparr>positive = Some 1234, negative = Some 0, precision = 2,
          rounding = RoundToNearest, isInf = False, isNan = False, value' = Some 1234\<rparr>
   \<and> NewBigNumber ''266'' 2 RoundToNearest =
     Inr \<lparr>positive = Some 266, negative = Some 0, precision = 2,
          rounding = RoundToNearest, isInf = False, isNan = False, value' = Some 266\<rparr>
   \<and> (\<exists>r. Add
          \<lparr>positive = Some 1234, negative = Some 0, precision = 2,
            rounding = RoundToNearest, isInf = False, isNan = False, value' = Some 1234\<rparr>
          \<lparr>positive = Some 266, negative = Some 0, precision = 2,
            rounding = RoundToNearest, isInf = False, isNan = False, value' = Some 266\<rparr>
          = Inr r \<and> precision r = 2 \<and> value' r = Some 15)
   \<and> (\<exists>r. Subtract
          \<lparr>positive = Some 1234, negative = Some 0, precision = 2,
            rounding = RoundToNearest, isInf = False, isNan = False, value' = Some 1234\<rparr>
          \<lparr>positive = Some 266, negative = Some 0, precision = 2,
            rounding = RoundToNearest, isInf = False, isNan = False, value' = Some 266\<rparr>
          = Inr r \<and> precision r = 2 \<and> value' r = Some 10)"
  using C10_Add_Subtract_rounding
    [of "\<lparr>positive = Some 1234, negative = Some 0, precision = 2,
            rounding = RoundToNearest, isInf = False, isNan = False, value' = Some 1234\<rparr>"
        "\<lparr>positive = Some 266, negative = Some 0, precision = 2,
            rounding = RoundToNearest, isInf = False, isNan = False, value' = Some 266\<rparr>"
        1234 0 266 0]
  by (simp add: parse_more_integers) blast

section \<open>The loops of Exp and Log\<close>

subsection \<open>The 64-bit counter\<close>





subsection \<open>The series loop\<close>







subsection \<open>Parsing a rendered integer\<close>









subsection \<open>The counter does not wrap for operands below \<open>2^56\<close>\<close>




subsection \<open>Exp and the Newton loop\<close>






subsection \<open>The iteration count\<close>






end
